theory Spec2Isabelle
  imports Main
begin

section \<open>Configuration constants (js/config.js)\<close>

definition BATCH_SIZE :: nat where
  "BATCH_SIZE = 15"

definition RATE_LIMIT_DELAY :: nat where
  "RATE_LIMIT_DELAY = 100"

definition CACHE_TTL :: nat where
  "CACHE_TTL = 300000"

definition POWER_BI :: string where
  "POWER_BI = ''https://api.powerbi.com/v1.0/myorg''"

section \<open>JavaScript values\<close>

text \<open>
  A string-valued property that may be missing is a \<open>string option\<close>: \<open>None\<close> is
  \<open>undefined\<close>. The empty string and \<open>undefined\<close> are falsy, so \<open>a || b\<close> picks
  \<open>b\<close> for both. Timestamps are the milliseconds of \<open>Date.now()\<close>.
\<close>

type_synonym jsstr = "string option"

fun truthy :: "jsstr \<Rightarrow> bool" where
  "truthy None = False"
| "truthy (Some s) = (s \<noteq> [])"

definition js_or :: "jsstr \<Rightarrow> jsstr \<Rightarrow> jsstr" where
  "js_or a b = (if truthy a then a else b)"

section \<open>The membership cache (js/cache.js)\<close>

text \<open>
  Lists and records are values here. In the source the cached list is one array and
  each record one object: \<open>optimisticAddUser\<close> pushes onto the stored array and
  \<open>optimisticChangeRole\<close> overwrites the role on the stored object, so
  \<open>AppState.allUsers\<close> and the entries of \<open>knownUsers\<close> that are the same array or
  object change with them. The functions below give the cache maps
  (\<open>workspaceUserMap\<close>, \<open>workspaceCacheTTL\<close>) and the new \<open>knownUsers\<close> entry; they
  do not follow those aliases.
\<close>

record user_record =
  user_identifier :: jsstr
  displayName :: jsstr
  emailAddress :: jsstr
  groupUserAccessRight :: jsstr
  principalType :: jsstr

text \<open>The \<open>user\<close> argument of \<open>optimisticAddUser\<close>.\<close>

record user_input =
  in_identifier :: jsstr
  in_email :: jsstr
  in_displayName :: jsstr
  in_principalType :: jsstr

text \<open>
  The global \<open>AppState\<close> of js/config.js, with the fields the cache, the guards and
  the API module read or write. \<open>dirtyWorkspaces\<close> is a JavaScript \<open>Set\<close>: its
  members in insertion order. \<open>isFrozen\<close> is \<open>FatalError._isFrozen\<close>.
  \<open>pendingTimers\<close> holds the one-shot timers that \<open>setTimeout\<close> has armed and that
  have neither fired nor been cleared, each with its handle and the time it is due;
  \<open>nextTimerId\<close> is the next handle.
\<close>

record app_state =
  accessToken :: jsstr
  tokenExpiry :: "nat option"
  currentView :: string
  currentWorkspaceId :: jsstr
  allWorkspaces :: "string list"
  allUsers :: "user_record list"
  isPowerBIAdmin :: bool
  knownUsers :: "jsstr \<rightharpoonup> user_record"
  workspaceUserMap :: "string \<rightharpoonup> user_record list"
  workspaceCacheTTL :: "string \<rightharpoonup> nat"
  dirtyWorkspaces :: "string list"
  operationInProgress :: bool
  operationStartTime :: "nat option"
  isFrozen :: bool
  pendingTimers :: "(nat \<times> nat) list"
  nextTimerId :: nat

text \<open>\<open>!expiry || expiry < Date.now()\<close>: a missing expiry and the number 0 are falsy.\<close>

definition isCacheExpired :: "app_state \<Rightarrow> string \<Rightarrow> nat \<Rightarrow> bool" where
  "isCacheExpired s workspaceId now =
     (case workspaceCacheTTL s workspaceId of
        None \<Rightarrow> True
      | Some expiry \<Rightarrow> expiry = 0 \<or> expiry < now)"

definition setCacheWithTTL :: "app_state \<Rightarrow> string \<Rightarrow> user_record list \<Rightarrow> nat \<Rightarrow> app_state" where
  "setCacheWithTTL s workspaceId users now =
     s\<lparr>workspaceUserMap := (workspaceUserMap s)(workspaceId \<mapsto> users),
       workspaceCacheTTL := (workspaceCacheTTL s)(workspaceId \<mapsto> now + CACHE_TTL)\<rparr>"

text \<open>\<open>AppState.workspaceUserMap.get(workspaceId) || []\<close>: an array is always truthy.\<close>

definition usersOrEmpty :: "app_state \<Rightarrow> string \<Rightarrow> user_record list" where
  "usersOrEmpty s workspaceId =
     (case workspaceUserMap s workspaceId of None \<Rightarrow> [] | Some users \<Rightarrow> users)"

definition newUser :: "user_input \<Rightarrow> jsstr \<Rightarrow> user_record" where
  "newUser user role =
     \<lparr>user_identifier = js_or (in_identifier user) (in_email user),
      displayName = js_or (in_displayName user) (in_email user),
      emailAddress = js_or (in_email user) (in_identifier user),
      groupUserAccessRight = role,
      principalType = js_or (in_principalType user) (Some ''User'')\<rparr>"

definition optimisticAddUser :: "app_state \<Rightarrow> string \<Rightarrow> user_input \<Rightarrow> jsstr \<Rightarrow> nat \<Rightarrow> app_state" where
  "optimisticAddUser s workspaceId user role now =
     (let users = usersOrEmpty s workspaceId @ [newUser user role];
          s1 = setCacheWithTTL s workspaceId users now
      in s1\<lparr>knownUsers := (knownUsers s1)(user_identifier (newUser user role) \<mapsto> newUser user role)\<rparr>)"

definition optimisticRemoveUser :: "app_state \<Rightarrow> string \<Rightarrow> jsstr \<Rightarrow> nat \<Rightarrow> app_state" where
  "optimisticRemoveUser s workspaceId userIdentifier now =
     (let users = usersOrEmpty s workspaceId;
          filtered = filter (\<lambda>u. user_identifier u \<noteq> userIdentifier) users
      in setCacheWithTTL s workspaceId filtered now)"

text \<open>
  \<open>users.find(...)\<close> returns the first match, whose role is then overwritten in place;
  \<open>setRoleOfFirst\<close> is that update, and it leaves a list without a match as it is.
\<close>

fun setRoleOfFirst :: "jsstr \<Rightarrow> jsstr \<Rightarrow> user_record list \<Rightarrow> user_record list" where
  "setRoleOfFirst userIdentifier newRole [] = []"
| "setRoleOfFirst userIdentifier newRole (u # us) =
     (if user_identifier u = userIdentifier
      then u\<lparr>groupUserAccessRight := newRole\<rparr> # us
      else u # setRoleOfFirst userIdentifier newRole us)"

definition optimisticChangeRole :: "app_state \<Rightarrow> string \<Rightarrow> jsstr \<Rightarrow> jsstr \<Rightarrow> nat \<Rightarrow> app_state" where
  "optimisticChangeRole s workspaceId userIdentifier newRole now =
     (let users = usersOrEmpty s workspaceId
      in if list_ex (\<lambda>u. user_identifier u = userIdentifier) users
         then setCacheWithTTL s workspaceId (setRoleOfFirst userIdentifier newRole users) now
         else s)"

text \<open>
  The cache read of \<open>Workspace.loadWorkspaceUsers\<close>:
  \<open>workspaceUserMap.has(id) && !Cache.isCacheExpired(id)\<close> serves the cached list,
  anything else goes to the network.
\<close>

definition cacheHit :: "app_state \<Rightarrow> string \<Rightarrow> nat \<Rightarrow> bool" where
  "cacheHit s workspaceId now =
     (workspaceUserMap s workspaceId \<noteq> None \<and> \<not> isCacheExpired s workspaceId now)"

definition cachedUsers :: "app_state \<Rightarrow> string \<Rightarrow> nat \<Rightarrow> user_record list option" where
  "cachedUsers s workspaceId now =
     (if cacheHit s workspaceId now then workspaceUserMap s workspaceId else None)"

section \<open>Effects on the collaborators\<close>

text \<open>
  What a function does beyond \<open>AppState\<close> is the list of events it returns, in the
  order the source performs them: alerts (\<open>UI.showAlert(message, kind)\<close>), console
  output, pacing (\<open>Utils.sleep(ms)\<close>), requests handed to \<open>apiCall\<close> and calls into the
  rendering and authentication modules.
\<close>

datatype event =
    Alert string string
  | ConsoleError string
  | ConsoleWarn string
  | ConsoleLog string
  | Sleep int
  | ApiCall string
  | ModuleCall string

section \<open>The dirty-set reconciler (js/cache.js)\<close>

text \<open>
  The outcome of \<open>apiCall(url)\<close> and of reading the body in
  \<open>refreshSingleWorkspace\<close>: the call throws or rejects, the response is not
  \<open>ok\<close>, reading the body throws, or the body arrives with its \<open>value\<close> field
  (\<open>None\<close> when the field is missing).
\<close>

datatype fetch_result =
    ApiThrows
  | NotOk
  | BodyThrows
  | OkData "user_record list option"

definition usersUrl :: "string \<Rightarrow> string" where
  "usersUrl workspaceId = POWER_BI @ ''/groups/'' @ workspaceId @ ''/users''"

definition markWorkspaceDirty :: "string \<Rightarrow> app_state \<Rightarrow> app_state" where
  "markWorkspaceDirty workspaceId s =
     (if workspaceId \<in> set (dirtyWorkspaces s) then s
      else s\<lparr>dirtyWorkspaces := dirtyWorkspaces s @ [workspaceId]\<rparr>)"

text \<open>
  \<open>env\<close> answers the request for a workspace and \<open>clock\<close> is \<open>Date.now()\<close> at the
  moment its answer is stored. \<open>Workspace.buildUserIndex\<close>, \<open>updateCurrentUserRole\<close>
  and \<open>renderUsers\<close> belong to the view and are recorded as one event.
\<close>

definition refreshSingleWorkspace ::
  "(string \<Rightarrow> fetch_result) \<Rightarrow> (string \<Rightarrow> nat) \<Rightarrow> string \<Rightarrow> app_state \<Rightarrow> event list \<times> app_state" where
  "refreshSingleWorkspace env clock workspaceId s =
     (case env workspaceId of
        ApiThrows \<Rightarrow>
          ([ApiCall (usersUrl workspaceId),
            ConsoleError (''Error refreshing workspace '' @ workspaceId @ '':'')], s)
      | NotOk \<Rightarrow> ([ApiCall (usersUrl workspaceId)], s)
      | BodyThrows \<Rightarrow>
          ([ApiCall (usersUrl workspaceId),
            ConsoleError (''Error refreshing workspace '' @ workspaceId @ '':'')], s)
      | OkData v \<Rightarrow>
          (let users = (case v of None \<Rightarrow> [] | Some us \<Rightarrow> us);
               s1 = setCacheWithTTL s workspaceId users (clock workspaceId);
               s2 = s1\<lparr>knownUsers := fold (\<lambda>u m. m(user_identifier u \<mapsto> u)) users (knownUsers s1)\<rparr>
           in if currentWorkspaceId s2 = Some workspaceId
              then ([ApiCall (usersUrl workspaceId), ModuleCall ''Workspace.renderUsers''],
                    s2\<lparr>allUsers := users\<rparr>)
              else ([ApiCall (usersUrl workspaceId)], s2)))"

text \<open>
  The loop of \<open>refreshDirtyWorkspaces\<close> over the drained array. Its own
  \<open>catch\<close> never runs: \<open>refreshSingleWorkspace\<close> catches everything itself.
\<close>

fun refreshEach ::
  "(string \<Rightarrow> fetch_result) \<Rightarrow> (string \<Rightarrow> nat) \<Rightarrow> string list \<Rightarrow> app_state \<Rightarrow> event list \<times> app_state" where
  "refreshEach env clock [] s = ([], s)"
| "refreshEach env clock (wsId # rest) s =
     (let (ev1, s1) = refreshSingleWorkspace env clock wsId s;
          (ev2, s2) = refreshEach env clock rest s1
      in (ev1 @ ev2, s2))"

definition refreshDirtyWorkspaces ::
  "(string \<Rightarrow> fetch_result) \<Rightarrow> (string \<Rightarrow> nat) \<Rightarrow> app_state \<Rightarrow> event list \<times> app_state" where
  "refreshDirtyWorkspaces env clock s =
     (if length (dirtyWorkspaces s) = 0 then ([], s)
      else let workspacesToRefresh = dirtyWorkspaces s
           in refreshEach env clock workspacesToRefresh (s\<lparr>dirtyWorkspaces := []\<rparr>))"

text \<open>
  A flush is not atomic: after it has emptied the set it suspends at every \<open>await\<close>,
  and code that runs meanwhile can write the dirty set. \<open>markWorkspaceDirty\<close> adds
  to it (\<open>removeUser\<close>, \<open>addUserFromOldModal\<close> and \<open>applyPendingRoleChanges\<close> of the
  workspace view call it with no interlock against a running flush),
  \<open>refreshCurrentWorkspace\<close> and the admin view delete from it, and a second flush
  clears it. \<open>dirtyAfter\<close> is the effect of one such write on the set.
\<close>

datatype dirty_op = Mark string | Unmark string | ClearDirty

fun dirtyAfter :: "dirty_op \<Rightarrow> string list \<Rightarrow> string list" where
  "dirtyAfter (Mark workspaceId) dirty =
     (if workspaceId \<in> set dirty then dirty else dirty @ [workspaceId])"
| "dirtyAfter (Unmark workspaceId) dirty = filter (\<lambda>w. w \<noteq> workspaceId) dirty"
| "dirtyAfter ClearDirty dirty = []"

definition otherCode :: "dirty_op list \<Rightarrow> app_state \<Rightarrow> app_state" where
  "otherCode ops s = s\<lparr>dirtyWorkspaces := fold dirtyAfter ops (dirtyWorkspaces s)\<rparr>"



text \<open>The requests for one workspace's members among the events of a run.\<close>

definition fetchesFor :: "string \<Rightarrow> event list \<Rightarrow> nat" where
  "fetchesFor workspaceId evs = count_list evs (ApiCall (usersUrl workspaceId))"

section \<open>String helpers\<close>

text \<open>\<open>startsWith s p\<close> and \<open>str_includes s p\<close> are \<open>s.startsWith(p)\<close> and \<open>s.includes(p)\<close>.\<close>

fun startsWith :: "string \<Rightarrow> string \<Rightarrow> bool" where
  "startsWith s [] = True"
| "startsWith [] (p # ps) = False"
| "startsWith (c # cs) (p # ps) = (c = p \<and> startsWith cs ps)"

fun str_includes :: "string \<Rightarrow> string \<Rightarrow> bool" where
  "str_includes [] p = (p = [])"
| "str_includes (c # cs) p = (startsWith (c # cs) p \<or> str_includes cs p)"

section \<open>The error classifier (js/utils.js)\<close>

datatype ErrorType =
    NETWORK | TIMEOUT | AUTH_EXPIRED | AUTH_INVALID | PERMISSION | NOT_FOUND
  | CONFLICT | RATE_LIMIT | SERVER | UNKNOWN | FATAL

text \<open>The object \<open>mapError\<close> returns: these four properties and no other.\<close>

record mapped_error =
  m_type :: ErrorType
  m_message :: string
  m_retryable :: bool
  m_action :: jsstr

text \<open>
  What \<open>mapError\<close> reads of its argument: \<open>name\<close>, \<open>message\<close>, \<open>status\<close> and
  \<open>response.status\<close> (each \<open>None\<close> when missing). \<open>err_headers\<close> are the headers of
  a \<open>Response\<close>, which \<open>mapError\<close> never reads. The argument may also be a plain
  string, or \<open>null\<close>/\<open>undefined\<close>.
\<close>

record err_object =
  err_name :: jsstr
  err_message :: jsstr
  err_status :: "nat option"
  err_response_status :: "nat option"
  err_headers :: "(string \<times> string) list"

datatype js_error = ErrNullish | ErrString string | ErrObject err_object

fun nameOf :: "js_error \<Rightarrow> jsstr" where
  "nameOf (ErrObject e) = err_name e"
| "nameOf _ = None"

fun messageOf :: "js_error \<Rightarrow> jsstr" where
  "messageOf (ErrObject e) = err_message e"
| "messageOf _ = None"

text \<open>\<open>err?.status || err?.response?.status\<close>: the number 0 is falsy.\<close>

fun statusOf :: "js_error \<Rightarrow> nat option" where
  "statusOf (ErrObject e) =
     (case err_status e of
        Some n \<Rightarrow> (if n = 0 then err_response_status e else Some n)
      | None \<Rightarrow> err_response_status e)"
| "statusOf _ = None"

definition messageIncludes :: "jsstr \<Rightarrow> string \<Rightarrow> bool" where
  "messageIncludes m p = (case m of None \<Rightarrow> False | Some s \<Rightarrow> str_includes s p)"

text \<open>The \<open>switch (status)\<close>: \<open>None\<close> when no case matches and control falls through.\<close>

definition mapStatus :: "js_error \<Rightarrow> nat \<Rightarrow> mapped_error option" where
  "mapStatus err status =
     (if status = 401 then
        Some \<lparr>m_type = AUTH_EXPIRED, m_message = ''Session expired. Please sign in again.'',
              m_retryable = False, m_action = Some ''login''\<rparr>
      else if status = 403 then
        Some \<lparr>m_type = PERMISSION, m_message = ''You don't have permission for this action.'',
              m_retryable = False, m_action = None\<rparr>
      else if status = 404 then
        Some \<lparr>m_type = NOT_FOUND, m_message = ''The requested resource was not found.'',
              m_retryable = False, m_action = None\<rparr>
      else if status = 409 then
        Some \<lparr>m_type = CONFLICT,
              m_message = (case messageOf err of
                             Some m \<Rightarrow> (if m = [] then ''This item already exists.'' else m)
                           | None \<Rightarrow> ''This item already exists.''),
              m_retryable = False, m_action = None\<rparr>
      else if status = 429 then
        Some \<lparr>m_type = RATE_LIMIT,
              m_message = ''Too many requests. Please wait a moment and try again.'',
              m_retryable = True, m_action = Some ''wait''\<rparr>
      else if status = 500 \<or> status = 502 \<or> status = 503 \<or> status = 504 then
        Some \<lparr>m_type = SERVER,
              m_message = ''Power BI service is temporarily unavailable. Please try again later.'',
              m_retryable = True, m_action = Some ''retry''\<rparr>
      else None)"

text \<open>The tail of \<open>mapError\<close>, after the status switch.\<close>

definition mapMessage :: "js_error \<Rightarrow> mapped_error" where
  "mapMessage err =
     (case err of
        ErrString s \<Rightarrow>
          \<lparr>m_type = UNKNOWN, m_message = s, m_retryable = False, m_action = None\<rparr>
      | _ \<Rightarrow>
          (case messageOf err of
             Some m \<Rightarrow>
               (if m = [] then
                  \<lparr>m_type = UNKNOWN, m_message = ''Something went wrong. Please try again.'',
                   m_retryable = True, m_action = Some ''retry''\<rparr>
                else if str_includes m ''expired'' then
                  \<lparr>m_type = AUTH_EXPIRED, m_message = ''Session expired. Please sign in again.'',
                   m_retryable = False, m_action = Some ''login''\<rparr>
                else if str_includes m ''timeout'' then
                  \<lparr>m_type = TIMEOUT, m_message = ''Request timed out. Please try again.'',
                   m_retryable = True, m_action = Some ''retry''\<rparr>
                else \<lparr>m_type = UNKNOWN, m_message = m, m_retryable = False, m_action = None\<rparr>)
           | None \<Rightarrow>
               \<lparr>m_type = UNKNOWN, m_message = ''Something went wrong. Please try again.'',
                m_retryable = True, m_action = Some ''retry''\<rparr>))"

text \<open>\<open>onLine\<close> is \<open>navigator.onLine\<close>.\<close>

definition mapError :: "bool \<Rightarrow> js_error \<Rightarrow> mapped_error" where
  "mapError onLine err =
     (if nameOf err = Some ''AbortError'' then
        \<lparr>m_type = TIMEOUT,
         m_message = ''Request timed out. Please check your connection and try again.'',
         m_retryable = True, m_action = Some ''retry''\<rparr>
      else if nameOf err = Some ''TypeError'' \<and> messageIncludes (messageOf err) ''fetch'' then
        \<lparr>m_type = NETWORK, m_message = ''Network error. Please check your internet connection.'',
         m_retryable = True, m_action = Some ''retry''\<rparr>
      else if \<not> onLine then
        \<lparr>m_type = NETWORK, m_message = ''You appear to be offline. Please check your connection.'',
         m_retryable = True, m_action = Some ''retry''\<rparr>
      else
        (case statusOf err of
           None \<Rightarrow> mapMessage err
         | Some status \<Rightarrow>
             (if status = 0 then mapMessage err
              else (case mapStatus err status of
                      Some mapped \<Rightarrow> mapped
                    | None \<Rightarrow> mapMessage err))))"

text \<open>An HTTP 429 response whose \<open>Retry-After\<close> header is the given text.\<close>

definition response429 :: "string \<Rightarrow> js_error" where
  "response429 retryAfter =
     ErrObject \<lparr>err_name = None, err_message = None, err_status = Some 429,
                err_response_status = None, err_headers = [(''Retry-After'', retryAfter)]\<rparr>"

section \<open>Numbers in messages\<close>

text \<open>
  The decimal text of a number, as a template literal prints it for integers below
  \<open>1e21\<close> (from there on JavaScript prints an exponent).
\<close>

function show_nat :: "nat \<Rightarrow> string" where
  "show_nat n =
     (if n < 10 then [char_of (48 + n)]
      else show_nat (n div 10) @ [char_of (48 + n mod 10)])"
  by pat_completeness auto
termination
  by (relation "measure (\<lambda>n. n)") auto

declare show_nat.simps [simp del]

definition show_int :: "int \<Rightarrow> string" where
  "show_int i = (if i < 0 then CHR ''-'' # show_nat (nat (- i)) else show_nat (nat i))"

section \<open>The request layer (API module)\<close>

text \<open>
  What the API module reads of a \<open>Response\<close>. \<open>resp_retryAfter\<close> is
  \<open>parseInt(response.headers.get('Retry-After'))\<close>, \<open>None\<close> when that is \<open>NaN\<close>;
  \<open>resp_errorMessage\<close> is \<open>error?.message\<close> of the parsed body, \<open>None\<close> when the
  body does not parse or has no such field; \<open>resp_text\<close> is \<open>response.text()\<close>.
\<close>

record response =
  resp_status :: nat
  resp_ok :: bool
  resp_statusText :: string
  resp_retryAfter :: "int option"
  resp_errorMessage :: jsstr
  resp_text :: string

text \<open>
  One invocation of \<open>API.call\<close>: it throws an error with a name and a message, or
  it returns a response. A server is the sequence of these outcomes, one for each
  invocation in turn.
\<close>

datatype call_result = CallThrows string string | Resp response

definition MAX_RETRIES :: nat where
  "MAX_RETRIES = 3"

text \<open>
  The \<open>catch\<close> block of \<open>callWithErrorHandling\<close> rethrows every error; it logs the
  ones whose message names none of the handled kinds.
\<close>

definition catchLog :: "string \<Rightarrow> event list" where
  "catchLog message =
     (if str_includes message ''Authentication'' \<or> str_includes message ''Permission''
         \<or> str_includes message ''Rate limit'' \<or> str_includes message ''timeout''
         \<or> str_includes message ''Network''
      then [] else [ConsoleError ''API Error:''])"

text \<open>\<open>parseInt(...) || fallback\<close>: \<open>NaN\<close> and 0 are falsy.\<close>

definition retryAfterOr :: "response \<Rightarrow> int \<Rightarrow> int" where
  "retryAfterOr r fallback =
     (case resp_retryAfter r of
        None \<Rightarrow> fallback
      | Some n \<Rightarrow> (if n = 0 then fallback else n))"

definition messageOr :: "jsstr \<Rightarrow> string \<Rightarrow> string" where
  "messageOr m fallback =
     (case m of None \<Rightarrow> fallback | Some s \<Rightarrow> (if s = [] then fallback else s))"

text \<open>
  \<open>API.callWithErrorHandling(url, options, retryCount)\<close> of the API module with the
  retry counter. \<open>k\<close> is the number of invocations of \<open>API.call\<close> made so far, so
  \<open>server k\<close> answers this one. The result is the events and either the message of the
  error thrown (\<open>Inl\<close>) or the response returned (\<open>Inr\<close>). The writes that
  \<open>Auth.signOut\<close> and the 403 branch make to \<open>AppState\<close> are recorded as events. A
  retry is \<open>return this.callWithErrorHandling(...)\<close> without \<open>await\<close>, so its
  error does not pass through the \<open>catch\<close> of the caller.
  \<open>resp_errorMessage\<close> covers a body that is an object and a body that does not
  parse; for a body that parses to \<open>null\<close> the source throws a \<open>TypeError\<close> at
  \<open>conflictData.error\<close> (and at \<open>errorData.error\<close>), a case left out of the 409 and
  default branches here.
\<close>

function callWithErrorHandling ::
  "(nat \<Rightarrow> call_result) \<Rightarrow> bool \<Rightarrow> string \<Rightarrow> nat \<Rightarrow> nat \<Rightarrow> event list \<times> (string + response)" where
  "callWithErrorHandling server isAdmin url k retryCount =
     (case server k of
        CallThrows name message \<Rightarrow> (ApiCall url # catchLog message, Inl message)
      | Resp r \<Rightarrow>
          (if resp_status r = 401 then
             ([ApiCall url, Alert ''Session expired. Please sign in again.'' ''error'',
               ModuleCall ''Auth.signOut''] @ catchLog ''Authentication failed'',
              Inl ''Authentication failed'')
           else if resp_status r = 403 then
             ([ApiCall url] @
              (if isAdmin \<and> str_includes url ''/admin/''
               then [ModuleCall ''AppState.isPowerBIAdmin = false'',
                     ModuleCall ''Auth.updateAdminPanelVisibility'',
                     Alert ''Admin access revoked. Switching to user view.'' ''warning'',
                     ModuleCall ''App.switchView'']
               else [Alert ''Permission denied. You may not have access to this resource.'' ''error''])
              @ catchLog ''Permission denied'',
              Inl ''Permission denied'')
           else if resp_status r = 404 then
             (ApiCall url # catchLog ''Resource not found'', Inl ''Resource not found'')
           else if resp_status r = 409 then
             (let conflictMsg = messageOr (resp_errorMessage r) ''Conflict: Resource already exists''
              in ([ApiCall url, Alert conflictMsg ''warning''] @ catchLog conflictMsg, Inl conflictMsg))
           else if resp_status r = 429 then
             (if retryCount \<ge> MAX_RETRIES then
                ([ApiCall url,
                  Alert ''Rate limit exceeded. Please wait a moment and try again.'' ''error'']
                 @ catchLog ''Rate limit exceeded'',
                 Inl ''Rate limit exceeded'')
              else
                (let retryAfter = retryAfterOr r (5 * 2 ^ retryCount);
                     rest = callWithErrorHandling server isAdmin url (k + 1) (retryCount + 1)
                 in ([ApiCall url,
                      Alert (''Rate limited. Retrying in '' @ show_int retryAfter @ ''s... (''
                             @ show_nat (retryCount + 1) @ ''/'' @ show_nat MAX_RETRIES @ '')'')
                        ''warning'',
                      Sleep (retryAfter * 1000)] @ fst rest,
                     snd rest)))
           else if resp_status r = 500 \<or> resp_status r = 502 \<or> resp_status r = 503
                   \<or> resp_status r = 504 then
             (if retryCount < MAX_RETRIES then
                (let backoff = 2 ^ retryCount * 1000;
                     rest = callWithErrorHandling server isAdmin url (k + 1) (retryCount + 1)
                 in ([ApiCall url,
                      Alert (''Server error. Retrying in '' @ show_nat (2 ^ retryCount) @ ''s...'')
                        ''warning'',
                      Sleep backoff] @ fst rest,
                     snd rest))
              else
                ([ApiCall url,
                  Alert ''Power BI service unavailable. Please try again later.'' ''error'']
                 @ catchLog (''Server error: '' @ show_nat (resp_status r)),
                 Inl (''Server error: '' @ show_nat (resp_status r))))
           else if resp_status r = 200 \<or> resp_status r = 201 \<or> resp_status r = 202
                   \<or> resp_status r = 204 then
             ([ApiCall url], Inr r)
           else if \<not> resp_ok r then
             (let errorMsg = messageOr (resp_errorMessage r)
                               (''Request failed ('' @ show_nat (resp_status r) @ '')'')
              in ([ApiCall url, Alert errorMsg ''error''] @ catchLog errorMsg, Inl errorMsg))
           else ([ApiCall url], Inr r)))"
  by pat_completeness auto
termination
  by (relation "measure (\<lambda>(server, isAdmin, url, k, retryCount). MAX_RETRIES - retryCount)")
     (auto simp: MAX_RETRIES_def)

declare callWithErrorHandling.simps [simp del]

text \<open>
  The \<open>catch\<close> block of \<open>callWithErrorHandling\<close> in js/api.js: an alert for a
  network failure, then the error is thrown again.
\<close>

definition catchAlert :: "bool \<Rightarrow> string \<Rightarrow> string \<Rightarrow> event list" where
  "catchAlert onLine name message =
     (if \<not> onLine then [Alert ''No internet connection. Check your network.'' ''error'']
      else if name = ''TypeError'' \<and> str_includes message ''fetch''
      then [Alert ''Network error. Please check your connection.'' ''error'']
      else [])"

text \<open>
  \<open>API.callWithErrorHandling(url, options)\<close> of js/api.js, which has no retry counter:
  on 429 it sleeps and calls itself again. The recursion need not end, so the function
  takes fuel, one unit for each invocation of \<open>API.call\<close>, and \<open>None\<close> says that the
  fuel did not suffice.
\<close>

fun callWithErrorHandling_legacy ::
  "nat \<Rightarrow> (nat \<Rightarrow> call_result) \<Rightarrow> bool \<Rightarrow> bool \<Rightarrow> string \<Rightarrow> nat
     \<Rightarrow> (event list \<times> (string + response)) option" where
  "callWithErrorHandling_legacy 0 server onLine isAdmin url k = None"
| "callWithErrorHandling_legacy (Suc fuel) server onLine isAdmin url k =
     (case server k of
        CallThrows name message \<Rightarrow>
          Some (ApiCall url # catchAlert onLine name message, Inl message)
      | Resp r \<Rightarrow>
          (if resp_status r = 401 then
             Some ([ApiCall url, Alert ''Session expired. Please sign in again.'' ''error'',
                    ModuleCall ''Auth.signOut'']
                   @ catchAlert onLine ''Error'' ''Authentication failed'',
                   Inl ''Authentication failed'')
           else if resp_status r = 403 then
             Some ([ApiCall url] @
                   (if isAdmin \<and> str_includes url ''/admin/''
                    then [ModuleCall ''AppState.isPowerBIAdmin = false'',
                          ModuleCall ''UI.updateAdminPanelVisibility'',
                          Alert ''Admin access revoked. Switching to user view.'' ''warning'',
                          ModuleCall ''UI.switchView'']
                    else [])
                   @ catchAlert onLine ''Error'' ''Permission denied'',
                   Inl ''Permission denied'')
           else if resp_status r = 429 then
             (let retryAfter = retryAfterOr r 5
              in case callWithErrorHandling_legacy fuel server onLine isAdmin url (k + 1) of
                   None \<Rightarrow> None
                 | Some rest \<Rightarrow>
                     Some ([ApiCall url,
                            Alert (''Rate limited. Retrying in '' @ show_int retryAfter @ ''s...'')
                              ''warning'',
                            Sleep (retryAfter * 1000)] @ fst rest,
                           snd rest))
           else if resp_status r = 500 \<or> resp_status r = 502 \<or> resp_status r = 503
                   \<or> resp_status r = 504 then
             Some ([ApiCall url,
                    Alert ''Power BI service error. Please try again later.'' ''error'']
                   @ catchAlert onLine ''Error'' (''Server error: '' @ show_nat (resp_status r)),
                   Inl (''Server error: '' @ show_nat (resp_status r)))
           else if resp_status r = 200 \<or> resp_status r = 201 \<or> resp_status r = 202
                   \<or> resp_status r = 204 then
             Some ([ApiCall url], Inr r)
           else if \<not> resp_ok r then
             (let message = ''HTTP '' @ show_nat (resp_status r) @ '': '' @ resp_text r
              in Some (ApiCall url # catchAlert onLine ''Error'' message, Inl message))
           else Some ([ApiCall url], Inr r)))"

text \<open>The number of invocations of \<open>API.call\<close> among the events of a run.\<close>

definition callCount :: "string \<Rightarrow> event list \<Rightarrow> nat" where
  "callCount url evs = count_list evs (ApiCall url)"

text \<open>A server that answers every request with 429 and \<open>Retry-After: 5\<close>.\<close>

definition always429 :: "nat \<Rightarrow> call_result" where
  "always429 k =
     Resp \<lparr>resp_status = 429, resp_ok = False, resp_statusText = ''Too Many Requests'',
           resp_retryAfter = Some 5, resp_errorMessage = None, resp_text = []\<rparr>"

text \<open>A server that answers 429 twice and then 200.\<close>

definition twice429 :: "nat \<Rightarrow> call_result" where
  "twice429 k =
     (if k < 2 then always429 k
      else Resp \<lparr>resp_status = 200, resp_ok = True, resp_statusText = ''OK'',
                 resp_retryAfter = None, resp_errorMessage = None, resp_text = []\<rparr>)"

section \<open>The fatal-error boundary, diagnostics and action guards (js/utils.js)\<close>

text \<open>
  \<open>FatalError.trigger\<close>: a no-op once frozen. Cancelling the requests, clearing the
  timers that \<open>AppState\<close> names and showing the overlay are recorded as events.
  The source cancels the requests only when the loaded API module has
  \<open>cancelAllRequests\<close>, which the module with the retry counter has and js/api.js has
  not; the event stands for the former.
\<close>

definition trigger :: "string \<Rightarrow> app_state \<Rightarrow> event list \<times> app_state" where
  "trigger reason s =
     (if isFrozen s then ([], s)
      else ([ConsoleError ''[FATAL ERROR]'', ModuleCall ''API.cancelAllRequests'',
             ModuleCall ''FatalError._clearAllTimers'',
             ModuleCall ''FatalError._showFatalOverlay''],
            s\<lparr>isFrozen := True\<rparr>))"

definition numTruthy :: "nat option \<Rightarrow> bool" where
  "numTruthy n = (case n of None \<Rightarrow> False | Some k \<Rightarrow> k \<noteq> 0)"

definition checkStateConsistency :: "app_state \<Rightarrow> string list" where
  "checkStateConsistency s =
     (if numTruthy (tokenExpiry s) \<and> \<not> truthy (accessToken s)
      then [''Token expiry set but no access token''] else [])
     @ (if truthy (currentWorkspaceId s) \<and> length (allWorkspaces s) > 0
           \<and> \<not> list_ex (\<lambda>wsId. Some wsId = currentWorkspaceId s) (allWorkspaces s)
        then [''Selected workspace not in workspace list''] else [])
     @ (if currentView s \<notin> set [''workspace'', ''user'', ''admin'']
        then [''Invalid current view: '' @ currentView s] else [])
     @ (if currentView s = ''admin'' \<and> \<not> isPowerBIAdmin s
        then [''Admin view active but user is not admin''] else [])
     @ (if operationInProgress s \<and> \<not> truthy (accessToken s)
        then [''Operation in progress without authentication''] else [])"

definition assertValidState :: "string \<Rightarrow> app_state \<Rightarrow> event list \<times> bool \<times> app_state" where
  "assertValidState context s =
     (if isFrozen s then ([], False, s)
      else
        (let issues = checkStateConsistency s
         in if issues \<noteq> [] then
              (let criticalIssues =
                     filter (\<lambda>issue. str_includes issue ''AppState is undefined''
                                       \<or> str_includes issue ''Invalid current view'') issues
               in if length criticalIssues > 0 then
                    (let (ev, s1) =
                           trigger ''The application entered an invalid state and cannot continue.'' s
                     in (ConsoleWarn (''[Diagnostics:'' @ context @ ''] State issues:'') # ev,
                         False, s1))
                  else ([ConsoleWarn (''[Diagnostics:'' @ context @ ''] State issues:'')], True, s))
            else ([], True, s)))"

text \<open>\<open>toLowerCase\<close> on the letters A to Z; every other byte stays.\<close>

definition lowerChar :: "char \<Rightarrow> char" where
  "lowerChar c =
     (if 65 \<le> (of_char c :: nat) \<and> (of_char c :: nat) \<le> 90
      then char_of ((of_char c :: nat) + 32) else c)"

definition toLowerCase :: "string \<Rightarrow> string" where
  "toLowerCase s = map lowerChar s"

definition fatalPatterns :: "string list" where
  "fatalPatterns =
     [''Maximum call stack size exceeded'', ''out of memory'', ''Script error'',
      ''Internal error'', ''too much recursion'']"

text \<open>\<open>ActionGuard._isFatalError\<close>; \<open>null\<close>, \<open>undefined\<close> and the empty string are falsy.\<close>

definition isFatalError :: "js_error \<Rightarrow> bool" where
  "isFatalError error =
     (if error = ErrNullish \<or> error = ErrString [] then False
      else (let message = toLowerCase (messageOr (messageOf error) [])
            in list_ex (\<lambda>pattern. str_includes message (toLowerCase pattern)) fatalPatterns))"

record guard_options =
  requireAuth :: bool
  requireWorkspace :: bool
  requireAdmin :: bool

text \<open>
  A guarded action runs on the state and either returns a value or throws. The guard
  returns \<open>null\<close>, the value of the action, or throws the error of the action again.
\<close>

datatype 'a action_result = Returns 'a | Throws js_error

datatype 'a guard_outcome = GuardNull | GuardValue 'a | GuardThrows js_error

definition guard ::
  "string \<Rightarrow> (app_state \<Rightarrow> event list \<times> 'a action_result \<times> app_state) \<Rightarrow> guard_options
     \<Rightarrow> app_state \<Rightarrow> event list \<times> 'a guard_outcome \<times> app_state" where
  "guard actionName action options s =
     (if isFrozen s then
        ([ConsoleWarn (''[Guard] Action blocked (fatal state): '' @ actionName)], GuardNull, s)
      else if operationInProgress s then
        ([Alert ''Please wait for the current operation to complete'' ''warning''], GuardNull, s)
      else if requireAuth options \<and> \<not> truthy (accessToken s) then
        ([Alert ''Please sign in to continue'' ''error''], GuardNull, s)
      else if requireWorkspace options \<and> \<not> truthy (currentWorkspaceId s) then
        ([Alert ''Please select a workspace first'' ''warning''], GuardNull, s)
      else if requireAdmin options \<and> \<not> isPowerBIAdmin s then
        ([Alert ''This action requires administrator privileges'' ''error''], GuardNull, s)
      else
        (case assertValidState actionName s of
           (ev1, valid, s1) \<Rightarrow>
             (if \<not> valid then (ev1, GuardNull, s1)
              else
                (case action s1 of
                   (ev2, Returns v, s2) \<Rightarrow> (ev1 @ ev2, GuardValue v, s2)
                 | (ev2, Throws error, s2) \<Rightarrow>
                     (if isFatalError error then
                        (let (ev3, s3) =
                               trigger ''A critical error occurred while performing an action.'' s2
                         in (ev1 @ ev2 @ ev3, GuardNull, s3))
                      else (ev1 @ ev2, GuardThrows error, s2))))))"

definition canProceed :: "string \<Rightarrow> app_state \<Rightarrow> event list \<times> bool" where
  "canProceed actionName s =
     (if isFrozen s then ([ConsoleWarn (''[Guard] Blocked (fatal): '' @ actionName)], False)
      else if operationInProgress s then ([], False)
      else ([], True))"

section \<open>The bulk operation engine (API module)\<close>

text \<open>
  \<open>s.replace(pattern, replacement)\<close> with a string pattern: the first occurrence is
  replaced.
\<close>

fun replaceFirst :: "string \<Rightarrow> string \<Rightarrow> string \<Rightarrow> string" where
  "replaceFirst pattern replacement [] = (if pattern = [] then replacement else [])"
| "replaceFirst pattern replacement (c # cs) =
     (if startsWith (c # cs) pattern then replacement @ drop (length pattern) (c # cs)
      else c # replaceFirst pattern replacement cs)"

text \<open>
  How one item's call settles under \<open>Promise.allSettled\<close>: fulfilled with a value
  (\<open>None\<close> for a falsy value), or rejected with a reason whose \<open>message\<close> may be missing.
\<close>

datatype settled = Fulfilled "response option" | Rejected jsstr

text \<open>
  The configuration object. \<open>permissionCheck\<close> is \<open>None\<close> when no predicate is given
  and otherwise what the predicate answers; \<open>buildPayload\<close> answers \<open>None\<close> for a
  falsy payload; \<open>makeCall\<close> is the \<open>apiCall\<close> property, with the way each call
  settles; the three callbacks are given or not, and a callback that is given is
  recorded as an event when it is called. The predicate, the payload builder and the
  callbacks are the caller's code and are taken to return normally.
\<close>

record ('i, 'p) bulk_config =
  items :: "'i list"
  permissionCheck :: "bool option"
  confirmMessage :: jsstr
  buildPayload :: "'i \<Rightarrow> 'p option"
  makeCall :: "'p \<Rightarrow> settled"
  onSuccess :: bool
  onComplete :: bool
  updateCache :: bool
  successMessage :: string
  errorMessage :: string
  partialMessage :: string

datatype ('i, 'p) bulk_event =
    Ev event
  | Confirm string
  | MakeCalls "'p list"
  | OnSuccess 'i response
  | UpdateCache nat nat
  | OnComplete nat nat

record bulk_result =
  successCount :: nat
  failureCount :: nat
  errors :: "string list"

definition WATCHDOG_DELAY :: nat where
  "WATCHDOG_DELAY = 5 * 60 * 1000"

text \<open>
  \<open>setTimeout\<close> for the watchdog arms a one-shot timer due \<open>WATCHDOG_DELAY\<close> after
  \<open>now\<close> and returns its handle; \<open>clearTimeout\<close> removes the timer with that handle.
\<close>

definition setWatchdog :: "nat \<Rightarrow> app_state \<Rightarrow> nat \<times> app_state" where
  "setWatchdog now s =
     (nextTimerId s,
      s\<lparr>pendingTimers := pendingTimers s @ [(nextTimerId s, now + WATCHDOG_DELAY)],
        nextTimerId := Suc (nextTimerId s)\<rparr>)"

definition clearTimeout :: "nat \<Rightarrow> app_state \<Rightarrow> app_state" where
  "clearTimeout timerId s =
     s\<lparr>pendingTimers := filter (\<lambda>t. fst t \<noteq> timerId) (pendingTimers s)\<rparr>"

text \<open>The callback of the watchdog timer. Its alert starts with a warning sign, left out here.\<close>

definition watchdogCallback :: "app_state \<Rightarrow> event list \<times> app_state" where
  "watchdogCallback s =
     (if operationInProgress s then
        ([ConsoleError (''[API.executeBulkOperation] WATCHDOG: Operation timeout detected! ''
                        @ ''Force clearing operationInProgress flag''),
          Alert ''Operation timed out and was reset. Please try again.'' ''warning''],
         s\<lparr>operationInProgress := False\<rparr>)
      else ([], s))"

text \<open>
  The event loop at time \<open>now\<close>: every pending timer that is due fires, in the order
  the timers were armed, and a timer that fires is pending no more.
\<close>

fun fireTimers :: "nat \<Rightarrow> (nat \<times> nat) list \<Rightarrow> app_state \<Rightarrow> event list \<times> app_state" where
  "fireTimers now [] s = ([], s)"
| "fireTimers now (t # ts) s =
     (if snd t \<le> now then
        (let (ev1, s1) = watchdogCallback (clearTimeout (fst t) s);
             (ev2, s2) = fireTimers now ts s1
         in (ev1 @ ev2, s2))
      else fireTimers now ts s)"

definition timerTick :: "nat \<Rightarrow> app_state \<Rightarrow> event list \<times> app_state" where
  "timerTick now s = fireTimers now (pendingTimers s) s"

text \<open>
  The entry of \<open>executeBulkOperation\<close> into the operation (flag, start time, watchdog)
  and its \<open>finally\<close> block.
\<close>

definition beginOperation :: "nat \<Rightarrow> app_state \<Rightarrow> nat \<times> app_state" where
  "beginOperation now s =
     setWatchdog now (s\<lparr>operationInProgress := True, operationStartTime := Some now\<rparr>)"

definition finishOperation :: "nat \<Rightarrow> app_state \<Rightarrow> app_state" where
  "finishOperation watchdogTimer s = (clearTimeout watchdogTimer s)\<lparr>operationInProgress := False\<rparr>"

definition durationOf :: "nat \<Rightarrow> app_state \<Rightarrow> int" where
  "durationOf now s =
     int now - (case operationStartTime s of None \<Rightarrow> 0 | Some t \<Rightarrow> int t)"

definition buildPayloads :: "('i, 'p) bulk_config \<Rightarrow> ('i \<times> 'p) list" where
  "buildPayloads cfg =
     concat (map (\<lambda>item. case buildPayload cfg item of
                           None \<Rightarrow> []
                         | Some payload \<Rightarrow> [(item, payload)]) (items cfg))"

text \<open>
  \<open>results.forEach\<close> over one batch: the counters and the error list after the
  batch, and the \<open>onSuccess\<close> calls it makes.
\<close>

fun settleBatch ::
  "('i, 'p) bulk_config \<Rightarrow> ('i \<times> 'p) list \<Rightarrow> nat \<times> nat \<times> string list
     \<Rightarrow> ('i, 'p) bulk_event list \<times> (nat \<times> nat \<times> string list)" where
  "settleBatch cfg [] acc = ([], acc)"
| "settleBatch cfg ((item, payload) # rest) (sc, fc, errs) =
     (case makeCall cfg payload of
        Fulfilled (Some r) \<Rightarrow>
          (if resp_ok r then
             (let (ev, acc') = settleBatch cfg rest (sc + 1, fc, errs)
              in ((if onSuccess cfg then [OnSuccess item r] else []) @ ev, acc'))
           else
             settleBatch cfg rest
               (sc, fc + 1,
                errs @ [if resp_statusText r \<noteq> [] then resp_statusText r
                        else ''HTTP '' @ show_nat (resp_status r)]))
      | Fulfilled None \<Rightarrow> settleBatch cfg rest (sc, fc + 1, errs @ [''Unknown error''])
      | Rejected reason \<Rightarrow>
          settleBatch cfg rest (sc, fc + 1, errs @ [messageOr reason ''Request failed'']))"

text \<open>The batch loop, from index \<open>i\<close> on.\<close>

function runBatches ::
  "('i, 'p) bulk_config \<Rightarrow> ('i \<times> 'p) list \<Rightarrow> nat \<Rightarrow> nat \<times> nat \<times> string list
     \<Rightarrow> ('i, 'p) bulk_event list \<times> (nat \<times> nat \<times> string list)" where
  "runBatches cfg payloads i acc =
     (if i < length payloads then
        (let total = length payloads;
             batch = take BATCH_SIZE (drop i payloads);
             batchNum = i div BATCH_SIZE + 1;
             totalBatches = (total + BATCH_SIZE - 1) div BATCH_SIZE;
             progress =
               (if total > BATCH_SIZE
                then [Ev (Alert (''Processing batch '' @ show_nat batchNum @ ''/''
                                 @ show_nat totalBatches @ ''...'') ''info'')]
                else []);
             settledBatch = settleBatch cfg batch acc;
             pause = (if i + BATCH_SIZE < total then [Ev (Sleep (int RATE_LIMIT_DELAY))] else []);
             rest = runBatches cfg payloads (i + BATCH_SIZE) (snd settledBatch)
         in (progress @ [MakeCalls (map snd batch)] @ fst settledBatch @ pause @ fst rest,
             snd rest))
      else ([], acc))"
  by pat_completeness auto
termination
  by (relation "measure (\<lambda>(cfg, payloads, i, acc). length payloads - i)")
     (auto simp: BATCH_SIZE_def)

declare runBatches.simps [simp del]

text \<open>The final feedback of the run.\<close>

definition finalAlert :: "('i, 'p) bulk_config \<Rightarrow> nat \<Rightarrow> nat \<Rightarrow> string \<Rightarrow> event" where
  "finalAlert cfg sc fc partialKind =
     (if fc = 0 then
        Alert (replaceFirst ''{count}'' (show_nat sc) (successMessage cfg)) ''success''
      else if sc = 0 then Alert (errorMessage cfg) ''error''
      else Alert (replaceFirst ''{failure}'' (show_nat fc)
                    (replaceFirst ''{success}'' (show_nat sc) (partialMessage cfg))) partialKind)"

text \<open>
  \<open>API.executeBulkOperation(config)\<close> of the API module with the watchdog, run to its
  end. \<open>confirmed\<close> is the user's answer to \<open>confirm\<close>; \<open>now\<close> and \<open>endNow\<close> are
  \<open>Date.now()\<close> at the start and in the \<open>finally\<close> block.
\<close>

definition executeBulkOperation ::
  "('i, 'p) bulk_config \<Rightarrow> bool \<Rightarrow> nat \<Rightarrow> nat \<Rightarrow> app_state
     \<Rightarrow> ('i, 'p) bulk_event list \<times> bulk_result \<times> app_state" where
  "executeBulkOperation cfg confirmed now endNow s =
     (if permissionCheck cfg = Some False then
        ([Ev (Alert ''You need Admin or Member role for this operation'' ''error'')],
         \<lparr>successCount = 0, failureCount = 0, errors = [''Permission denied'']\<rparr>, s)
      else if length (items cfg) = 0 then
        ([], \<lparr>successCount = 0, failureCount = 0, errors = []\<rparr>, s)
      else if truthy (confirmMessage cfg) \<and> \<not> confirmed then
        ([Confirm (messageOr (confirmMessage cfg) [])],
         \<lparr>successCount = 0, failureCount = 0, errors = [''Cancelled by user'']\<rparr>, s)
      else if operationInProgress s then
        ((if truthy (confirmMessage cfg) then [Confirm (messageOr (confirmMessage cfg) [])] else [])
         @ [Ev (Alert ''Please wait for the current operation to complete'' ''warning'')],
         \<lparr>successCount = 0, failureCount = 0, errors = [''Operation in progress'']\<rparr>, s)
      else
        (let (watchdogTimer, s1) = beginOperation now s;
             payloads = buildPayloads cfg;
             (ev, sc, fc, errs) = runBatches cfg payloads 0 (0, 0, [])
         in ((if truthy (confirmMessage cfg) then [Confirm (messageOr (confirmMessage cfg) [])] else [])
             @ [Ev (ConsoleLog ''[API.executeBulkOperation] Operation started'')]
             @ ev
             @ (if updateCache cfg then [UpdateCache sc fc] else [])
             @ [Ev (finalAlert cfg sc fc ''warning'')]
             @ (if onComplete cfg then [OnComplete sc fc] else [])
             @ [Ev (ConsoleLog (''[API.executeBulkOperation] Operation completed in ''
                                @ show_int (durationOf endNow s1) @ ''ms''))],
             \<lparr>successCount = sc, failureCount = fc, errors = errs\<rparr>,
             finishOperation watchdogTimer s1)))"

text \<open>The number of calls counted so far: successes and failures together.\<close>

definition tally :: "nat \<times> nat \<times> string list \<Rightarrow> nat" where
  "tally acc = fst acc + fst (snd acc)"

text \<open>
  The batches and the pauses among the events of a run, in order: the size of each
  batch handed to \<open>Promise.allSettled\<close> and the milliseconds of each
  \<open>Utils.sleep\<close>.
\<close>

datatype pace = Batch nat | Pause int

fun pacing :: "('i, 'p) bulk_event list \<Rightarrow> pace list" where
  "pacing [] = []"
| "pacing (MakeCalls ps # evs) = Batch (length ps) # pacing evs"
| "pacing (Ev (Sleep ms) # evs) = Pause ms # pacing evs"
| "pacing (e # evs) = pacing evs"

section \<open>The bulk operation engine of js/api.js\<close>

text \<open>
  The earlier engine has no watchdog, no progress alerts and no completion callback, and
  its early exits return \<open>undefined\<close>. It reads \<open>result.value.ok\<close> without asking
  whether the value is there: when a call fulfils with a falsy value this throws a
  \<open>TypeError\<close> out of \<open>forEach\<close>, which ends the run (\<open>None\<close> below).
\<close>

fun settleBatch_legacy ::
  "('i, 'p) bulk_config \<Rightarrow> ('i \<times> 'p) list \<Rightarrow> nat \<times> nat \<times> string list
     \<Rightarrow> ('i, 'p) bulk_event list \<times> (nat \<times> nat \<times> string list) option" where
  "settleBatch_legacy cfg [] acc = ([], Some acc)"
| "settleBatch_legacy cfg ((item, payload) # rest) (sc, fc, errs) =
     (case makeCall cfg payload of
        Fulfilled None \<Rightarrow> ([], None)
      | Fulfilled (Some r) \<Rightarrow>
          (if resp_ok r then
             (let (ev, acc') = settleBatch_legacy cfg rest (sc + 1, fc, errs)
              in ((if onSuccess cfg then [OnSuccess item r] else []) @ ev, acc'))
           else
             settleBatch_legacy cfg rest
               (sc, fc + 1,
                errs @ [if resp_statusText r \<noteq> [] then resp_statusText r else ''Unknown error'']))
      | Rejected reason \<Rightarrow>
          settleBatch_legacy cfg rest (sc, fc + 1, errs @ [messageOr reason ''Network error'']))"

function runBatches_legacy ::
  "('i, 'p) bulk_config \<Rightarrow> ('i \<times> 'p) list \<Rightarrow> nat \<Rightarrow> nat \<times> nat \<times> string list
     \<Rightarrow> ('i, 'p) bulk_event list \<times> (nat \<times> nat \<times> string list) option" where
  "runBatches_legacy cfg payloads i acc =
     (if i < length payloads then
        (let batch = take BATCH_SIZE (drop i payloads);
             settledBatch = settleBatch_legacy cfg batch acc
         in case snd settledBatch of
              None \<Rightarrow> ([MakeCalls (map snd batch)] @ fst settledBatch, None)
            | Some acc1 \<Rightarrow>
                (let pause = (if i + BATCH_SIZE < length payloads
                              then [Ev (Sleep (int RATE_LIMIT_DELAY))] else []);
                     rest = runBatches_legacy cfg payloads (i + BATCH_SIZE) acc1
                 in ([MakeCalls (map snd batch)] @ fst settledBatch @ pause @ fst rest, snd rest)))
      else ([], Some acc))"
  by pat_completeness auto
termination
  by (relation "measure (\<lambda>(cfg, payloads, i, acc). length payloads - i)")
     (auto simp: BATCH_SIZE_def)

declare runBatches_legacy.simps [simp del]

text \<open>
  \<open>API.executeBulkOperation(config)\<close> of js/api.js. The result is the error thrown
  (\<open>Inl\<close>) or the value returned, \<open>None\<close> for \<open>undefined\<close>. The test
  \<open>items.size === 0 && items.length === 0\<close> holds for no array and no \<open>Set\<close>, each of
  which has only one of the two properties, so it never returns early.
\<close>

definition executeBulkOperation_legacy ::
  "('i, 'p) bulk_config \<Rightarrow> bool \<Rightarrow> app_state
     \<Rightarrow> ('i, 'p) bulk_event list \<times> (string + bulk_result option) \<times> app_state" where
  "executeBulkOperation_legacy cfg confirmed s =
     (if permissionCheck cfg = Some False then
        ([Ev (Alert ''You need Admin or Member role for this operation'' ''error'')], Inr None, s)
      else if truthy (confirmMessage cfg) \<and> \<not> confirmed then
        ([Confirm (messageOr (confirmMessage cfg) [])], Inr None, s)
      else if operationInProgress s then
        ((if truthy (confirmMessage cfg) then [Confirm (messageOr (confirmMessage cfg) [])] else [])
         @ [Ev (Alert ''Please wait for the current operation to complete'' ''warning'')],
         Inr None, s)
      else
        (let payloads = buildPayloads cfg;
             run = runBatches_legacy cfg payloads 0 (0, 0, [])
         in case snd run of
              None \<Rightarrow>
                ((if truthy (confirmMessage cfg) then [Confirm (messageOr (confirmMessage cfg) [])]
                  else []) @ fst run,
                 Inl ''TypeError'', s\<lparr>operationInProgress := False\<rparr>)
            | Some (sc, fc, errs) \<Rightarrow>
                ((if truthy (confirmMessage cfg) then [Confirm (messageOr (confirmMessage cfg) [])]
                  else [])
                 @ fst run
                 @ (if updateCache cfg then [UpdateCache sc fc] else [])
                 @ [Ev (finalAlert cfg sc fc ''error'')]
                 @ (if length errs > 0 then [Ev (ConsoleError ''Bulk operation errors:'')] else []),
                 Inr (Some \<lparr>successCount = sc, failureCount = fc, errors = errs\<rparr>),
                 s\<lparr>operationInProgress := False\<rparr>)))"

section \<open>Concrete states and inputs\<close>

text \<open>
  \<open>exampleState\<close>: workspace W1 is cached with one viewer, written at time 100000
  (so it expires at 400000), and W1 is marked dirty. \<open>boundaryState\<close>: W1 is cached
  with an expiry of 1000. \<open>emptyState\<close>: nothing is cached.
\<close>

definition exampleState :: app_state where
  "exampleState =
     \<lparr>accessToken = Some ''token'', tokenExpiry = None, currentView = ''workspace'',
      currentWorkspaceId = Some ''W1'', allWorkspaces = [''W1''], allUsers = [],
      isPowerBIAdmin = False, knownUsers = Map.empty,
      workspaceUserMap = [''W1'' \<mapsto>
        [\<lparr>user_identifier = Some ''a@x.org'', displayName = Some ''A'',
          emailAddress = Some ''a@x.org'', groupUserAccessRight = Some ''Viewer'',
          principalType = Some ''User''\<rparr>]],
      workspaceCacheTTL = [''W1'' \<mapsto> 400000],
      dirtyWorkspaces = [''W1''], operationInProgress = False, operationStartTime = None,
      isFrozen = False, pendingTimers = [], nextTimerId = 0\<rparr>"

definition boundaryState :: app_state where
  "boundaryState =
     \<lparr>accessToken = Some ''token'', tokenExpiry = None, currentView = ''workspace'',
      currentWorkspaceId = Some ''W1'', allWorkspaces = [''W1''], allUsers = [],
      isPowerBIAdmin = False, knownUsers = Map.empty,
      workspaceUserMap = [''W1'' \<mapsto> []],
      workspaceCacheTTL = [''W1'' \<mapsto> 1000],
      dirtyWorkspaces = [], operationInProgress = False, operationStartTime = None,
      isFrozen = False, pendingTimers = [], nextTimerId = 0\<rparr>"

definition emptyState :: app_state where
  "emptyState =
     \<lparr>accessToken = Some ''token'', tokenExpiry = None, currentView = ''workspace'',
      currentWorkspaceId = None, allWorkspaces = [], allUsers = [],
      isPowerBIAdmin = False, knownUsers = Map.empty,
      workspaceUserMap = Map.empty, workspaceCacheTTL = Map.empty,
      dirtyWorkspaces = [], operationInProgress = False, operationStartTime = None,
      isFrozen = False, pendingTimers = [], nextTimerId = 0\<rparr>"

text \<open>
  \<open>busyState\<close> is \<open>exampleState\<close> with an operation in progress. \<open>someAction\<close> is an
  action that would leave a trace and clear the flag if it ran. \<open>failingConfig\<close> is a
  bulk removal of 37 items in which every call is rejected.
\<close>

definition busyState :: app_state where
  "busyState = exampleState\<lparr>operationInProgress := True\<rparr>"

definition someAction :: "app_state \<Rightarrow> event list \<times> nat action_result \<times> app_state" where
  "someAction s = ([ModuleCall ''action''], Returns 1, s\<lparr>operationInProgress := False\<rparr>)"

definition defaultOptions :: guard_options where
  "defaultOptions = \<lparr>requireAuth = True, requireWorkspace = False, requireAdmin = False\<rparr>"

definition failingConfig :: "(nat, nat) bulk_config" where
  "failingConfig =
     \<lparr>items = [0 ..< 37], permissionCheck = Some True, confirmMessage = Some ''Remove 37 users?'',
      buildPayload = (\<lambda>item. Some item),
      makeCall = (\<lambda>payload. Rejected (Some ''Failed to fetch'')),
      onSuccess = True, onComplete = True, updateCache = True,
      successMessage = ''Removed {count} users'', errorMessage = ''Failed to remove users'',
      partialMessage = ''Removed {success}, failed {failure}''\<rparr>"

section \<open>Properties of the membership cache\<close>

text \<open>
  Claim C1, as the code has it. A cache read is a hit exactly when the workspace has a
  stored list and a stored expiry that is not zero and is greater than or equal to the
  current time, and \<open>isCacheExpired\<close> is false exactly for such an expiry: the test
  is \<open>expiry < Date.now()\<close>, so an entry read at the very millisecond of its expiry
  is still served.
\<close>

theorem C1_cache_hit_iff:
  "cacheHit s w now =
     (\<exists>users expiry. workspaceUserMap s w = Some users \<and> workspaceCacheTTL s w = Some expiry
        \<and> 0 < expiry \<and> now \<le> expiry)
   \<and> (\<not> isCacheExpired s w now) =
     (\<exists>expiry. workspaceCacheTTL s w = Some expiry \<and> 0 < expiry \<and> now \<le> expiry)"
  by (auto simp: cacheHit_def isCacheExpired_def split: option.splits)

text \<open>
  Claim C1 as stated asks for a miss when \<open>expiresAt = now\<close>. In \<open>boundaryState\<close>
  the entry of W1 expires at 1000, and the read at time 1000 is a hit.
\<close>

theorem C1_boundary_counterexample:
  "workspaceCacheTTL boundaryState ''W1'' = Some 1000 \<and> \<not> (1000 < (1000::nat))
   \<and> cacheHit boundaryState ''W1'' 1000 \<and> \<not> isCacheExpired boundaryState ''W1'' 1000
   \<and> cachedUsers boundaryState ''W1'' 1000 = Some []"
  by (simp add: boundaryState_def cacheHit_def isCacheExpired_def cachedUsers_def)

text \<open>
  Claim C5, as the code has it. Every optimistic write goes through
  \<open>setCacheWithTTL\<close>: \<open>optimisticAddUser\<close> and \<open>optimisticRemoveUser\<close> always, and
  \<open>optimisticChangeRole\<close> when the identifier is in the list, set the expiry of the
  workspace to \<open>now + CACHE_TTL\<close> and leave the expiry of every other workspace alone;
  \<open>optimisticChangeRole\<close> for an identifier that is not in the list leaves every expiry
  as it was.
\<close>

theorem C5_optimistic_write_resets_expiry:
  "workspaceCacheTTL (optimisticAddUser s w user role now) = (workspaceCacheTTL s)(w \<mapsto> now + CACHE_TTL)
   \<and> workspaceCacheTTL (optimisticRemoveUser s w uid now) = (workspaceCacheTTL s)(w \<mapsto> now + CACHE_TTL)
   \<and> workspaceCacheTTL (optimisticChangeRole s w uid role now) =
       (if list_ex (\<lambda>u. user_identifier u = uid) (usersOrEmpty s w)
        then (workspaceCacheTTL s)(w \<mapsto> now + CACHE_TTL) else workspaceCacheTTL s)"
  by (simp add: optimisticAddUser_def optimisticRemoveUser_def optimisticChangeRole_def
      setCacheWithTTL_def Let_def)

text \<open>
  Claim C5 as stated asks that the expiry stays. In \<open>exampleState\<close> the entry of W1
  expires at 400000; after each of the three optimistic writes at time 200000 it expires
  at 500000.
\<close>

theorem C5_expiry_counterexample:
  "workspaceCacheTTL exampleState ''W1'' = Some 400000
   \<and> workspaceCacheTTL (optimisticRemoveUser exampleState ''W1'' (Some ''a@x.org'') 200000) ''W1'' = Some 500000
   \<and> workspaceCacheTTL (optimisticChangeRole exampleState ''W1'' (Some ''a@x.org'') (Some ''Admin'') 200000) ''W1'' = Some 500000
   \<and> workspaceCacheTTL (optimisticAddUser exampleState ''W1''
         \<lparr>in_identifier = Some ''b@x.org'', in_email = Some ''b@x.org'', in_displayName = Some ''B'',
          in_principalType = None\<rparr> (Some ''Member'') 200000) ''W1'' = Some 500000"
  by (simp add: exampleState_def optimisticAddUser_def optimisticRemoveUser_def
      optimisticChangeRole_def setCacheWithTTL_def usersOrEmpty_def CACHE_TTL_def Let_def)

text \<open>
  Claim C10. For a workspace with no stored list, \<open>optimisticRemoveUser\<close> stores the
  empty list and \<open>optimisticAddUser\<close> stores the list of the new record alone, both
  with the expiry \<open>now + CACHE_TTL\<close>, and the read that follows at once is a hit on
  that list.
\<close>

theorem C10_optimistic_write_creates_entry:
  assumes "workspaceUserMap s w = None"
  shows "workspaceUserMap (optimisticRemoveUser s w uid now) w = Some []
     \<and> workspaceCacheTTL (optimisticRemoveUser s w uid now) w = Some (now + CACHE_TTL)
     \<and> cachedUsers (optimisticRemoveUser s w uid now) w now = Some []
     \<and> workspaceUserMap (optimisticAddUser s w user role now) w = Some [newUser user role]
     \<and> workspaceCacheTTL (optimisticAddUser s w user role now) w = Some (now + CACHE_TTL)
     \<and> cachedUsers (optimisticAddUser s w user role now) w now = Some [newUser user role]"
  using assms
  by (simp add: optimisticAddUser_def optimisticRemoveUser_def setCacheWithTTL_def
      usersOrEmpty_def cachedUsers_def cacheHit_def isCacheExpired_def CACHE_TTL_def Let_def)

theorem C10_witness:
  "workspaceUserMap emptyState ''W1'' = None
   \<and> cachedUsers (optimisticRemoveUser emptyState ''W1'' (Some ''a@x.org'') 1000) ''W1'' 1000 = Some []
   \<and> workspaceCacheTTL (optimisticRemoveUser emptyState ''W1'' (Some ''a@x.org'') 1000) ''W1'' = Some 301000"
proof -
  have h: "workspaceUserMap emptyState ''W1'' = None"
    by (simp add: emptyState_def)
  show ?thesis
    using h C10_optimistic_write_creates_entry [OF h, of "Some ''a@x.org''" 1000]
    by (simp add: CACHE_TTL_def)
qed

section \<open>Properties of the dirty-set reconciler\<close>


lemma otherCode_mark: "otherCode [Mark w] s = markWorkspaceDirty w s"
  by (simp add: otherCode_def markWorkspaceDirty_def)









lemma markWorkspaceDirty_idem:
  "markWorkspaceDirty w (markWorkspaceDirty w s) = markWorkspaceDirty w s"
  by (simp add: markWorkspaceDirty_def)

lemma markWorkspaceDirty_funpow:
  "1 \<le> n \<Longrightarrow> (markWorkspaceDirty w ^^ n) s = markWorkspaceDirty w s"
proof (induction n)
  case 0
  then show ?case by simp
next
  case (Suc n)
  show ?case
  proof (cases "n = 0")
    case True
    then show ?thesis by simp
  next
    case False
    with Suc.IH have "(markWorkspaceDirty w ^^ n) s = markWorkspaceDirty w s" by simp
    then show ?thesis by (simp add: markWorkspaceDirty_idem)
  qed
qed

lemma usersUrl_inj: "usersUrl a = usersUrl b \<longleftrightarrow> a = b"
  by (simp add: usersUrl_def)

lemma refreshSingleWorkspace_fetches:
  "fetchesFor w (fst (refreshSingleWorkspace env clock w' s)) = (if w' = w then 1 else 0)"
  by (simp add: refreshSingleWorkspace_def fetchesFor_def usersUrl_inj Let_def
      split: fetch_result.splits)

lemma fetchesFor_append: "fetchesFor w (xs @ ys) = fetchesFor w xs + fetchesFor w ys"
  by (induction xs) (simp_all add: fetchesFor_def)

lemma refreshEach_fetches:
  "fetchesFor w (fst (refreshEach env clock ws s)) = count_list ws w"
proof (induction ws arbitrary: s)
  case Nil
  show ?case by (simp add: fetchesFor_def)
next
  case (Cons a ws)
  show ?case
    using Cons.IH [of "snd (refreshSingleWorkspace env clock a s)"]
    by (simp add: split_beta fetchesFor_append refreshSingleWorkspace_fetches)
qed

lemma refreshDirtyWorkspaces_fetches:
  "fetchesFor w (fst (refreshDirtyWorkspaces env clock s)) = count_list (dirtyWorkspaces s) w"
proof (cases "dirtyWorkspaces s = []")
  case True
  then show ?thesis by (simp add: refreshDirtyWorkspaces_def fetchesFor_def)
next
  case False
  then show ?thesis by (simp add: refreshDirtyWorkspaces_def refreshEach_fetches)
qed

lemma count_list_distinct: "distinct xs \<Longrightarrow> x \<in> set xs \<Longrightarrow> count_list xs x = 1"
  by (induction xs) (auto simp: count_list_0_iff)

text \<open>
  Claim C7. Marking a workspace dirty \<open>n \<ge> 1\<close> times and then flushing once hands
  exactly one request for that workspace's members to \<open>apiCall\<close>. The dirty set is a
  \<open>Set\<close>, so the list that stands for it has no duplicates.
\<close>

theorem C7_marks_coalesce:
  assumes "distinct (dirtyWorkspaces s)" and "1 \<le> n"
  shows "fetchesFor w (fst (refreshDirtyWorkspaces env clock ((markWorkspaceDirty w ^^ n) s))) = 1"
proof -
  have "distinct (dirtyWorkspaces (markWorkspaceDirty w s))"
    using assms(1) by (simp add: markWorkspaceDirty_def)
  moreover have "w \<in> set (dirtyWorkspaces (markWorkspaceDirty w s))"
    by (simp add: markWorkspaceDirty_def)
  ultimately have "count_list (dirtyWorkspaces (markWorkspaceDirty w s)) w = 1"
    by (rule count_list_distinct)
  then show ?thesis
    using assms(2) by (simp add: markWorkspaceDirty_funpow refreshDirtyWorkspaces_fetches)
qed

theorem C7_witness:
  "distinct (dirtyWorkspaces emptyState) \<and> (1::nat) \<le> 3
   \<and> fetchesFor ''W1'' (fst (refreshDirtyWorkspaces (\<lambda>w. NotOk) (\<lambda>w. 0)
        (markWorkspaceDirty ''W1'' (markWorkspaceDirty ''W1'' (markWorkspaceDirty ''W1'' emptyState))))) = 1"
proof -
  have d: "distinct (dirtyWorkspaces emptyState)" by (simp add: emptyState_def)
  have n: "(1::nat) \<le> 3" by simp
  show ?thesis
    using d n C7_marks_coalesce [OF d n, of "''W1''" "\<lambda>w. NotOk" "\<lambda>w. 0"]
    by (simp add: numeral_3_eq_3)
qed

section \<open>Properties of the error classifier\<close>

text \<open>
  Claim C9, as the code has it. While the browser is online, every argument whose
  status is 429 (and that is neither an \<open>AbortError\<close> nor a \<open>TypeError\<close> about
  \<open>fetch\<close>) is classified as \<open>RATE_LIMIT\<close>, retryable, with the action \<open>wait\<close> and
  a fixed message. The result is this one object whatever the headers are: it has no
  component for a suggested wait.
\<close>

theorem C9_rate_limit_classification:
  assumes "onLine" and "statusOf err = Some 429"
    and "nameOf err \<noteq> Some ''AbortError''"
    and "\<not> (nameOf err = Some ''TypeError'' \<and> messageIncludes (messageOf err) ''fetch'')"
  shows "mapError onLine err =
     \<lparr>m_type = RATE_LIMIT, m_message = ''Too many requests. Please wait a moment and try again.'',
      m_retryable = True, m_action = Some ''wait''\<rparr>"
  using assms by (simp add: mapError_def mapStatus_def)

theorem C9_witness:
  "statusOf (response429 ''5'') = Some 429
   \<and> mapError True (response429 ''5'') =
     \<lparr>m_type = RATE_LIMIT, m_message = ''Too many requests. Please wait a moment and try again.'',
      m_retryable = True, m_action = Some ''wait''\<rparr>"
proof -
  have a: "statusOf (response429 ''5'') = Some 429" by (simp add: response429_def)
  have b: "nameOf (response429 ''5'') \<noteq> Some ''AbortError''" by (simp add: response429_def)
  have c: "\<not> (nameOf (response429 ''5'') = Some ''TypeError''
             \<and> messageIncludes (messageOf (response429 ''5'')) ''fetch'')"
    by (simp add: response429_def)
  show ?thesis
    using a C9_rate_limit_classification [OF TrueI a b c] by simp
qed

text \<open>
  Claim C9 as stated asks that the classification reports a wait of 5 seconds for
  \<open>Retry-After: 5\<close>. The whole result for that response is the four properties
  below, none of them a wait, and it is the same object for \<open>Retry-After: 60\<close>.
\<close>

theorem C9_retry_after_counterexample:
  "mapError True (response429 ''5'') =
     \<lparr>m_type = RATE_LIMIT, m_message = ''Too many requests. Please wait a moment and try again.'',
      m_retryable = True, m_action = Some ''wait''\<rparr>
   \<and> mapError True (response429 ''5'') = mapError True (response429 ''60'')"
  by (simp add: mapError_def mapStatus_def response429_def)

section \<open>Properties of the request layer\<close>

lemma legacy_429_step:
  assumes "server k = Resp r" and "resp_status r = 429"
  shows "callWithErrorHandling_legacy (Suc fuel) server onLine isAdmin url k =
     (case callWithErrorHandling_legacy fuel server onLine isAdmin url (k + 1) of
        None \<Rightarrow> None
      | Some rest \<Rightarrow>
          Some ([ApiCall url,
                 Alert (''Rate limited. Retrying in '' @ show_int (retryAfterOr r 5) @ ''s...'')
                   ''warning'',
                 Sleep (retryAfterOr r 5 * 1000)] @ fst rest,
                snd rest))"
  using assms by (simp add: Let_def)

lemma legacy_all429_never_returns:
  assumes "\<And>k. \<exists>r. server k = Resp r \<and> resp_status r = 429"
  shows "callWithErrorHandling_legacy fuel server onLine isAdmin url k = None"
proof (induction fuel arbitrary: k)
  case 0
  show ?case by simp
next
  case (Suc fuel)
  from assms obtain r where r: "server k = Resp r" "resp_status r = 429" by blast
  show ?case
    using Suc.IH [of "k + 1"] legacy_429_step [of server k r fuel onLine isAdmin url] r
    by simp
qed

text \<open>
  Claim C6 on \<open>callWithErrorHandling\<close> of js/api.js. Against a server that always
  answers 429 the call does not return within any number of requests: whatever the
  fuel, the result is \<open>None\<close>. The comment in the source says "Retry once".
\<close>

theorem C6_legacy_retry_never_ends:
  "callWithErrorHandling_legacy fuel always429 onLine isAdmin url k = None"
  by (rule legacy_all429_never_returns) (simp add: always429_def)

lemma cweh_429_last:
  assumes "server k = Resp r" and "resp_status r = 429" and "MAX_RETRIES \<le> retryCount"
  shows "callWithErrorHandling server isAdmin url k retryCount =
     ([ApiCall url, Alert ''Rate limit exceeded. Please wait a moment and try again.'' ''error'']
      @ catchLog ''Rate limit exceeded'', Inl ''Rate limit exceeded'')"
  using assms by (subst callWithErrorHandling.simps) simp

lemma cweh_429_retry:
  assumes "server k = Resp r" and "resp_status r = 429" and "retryCount < MAX_RETRIES"
  shows "callWithErrorHandling server isAdmin url k retryCount =
     ([ApiCall url,
       Alert (''Rate limited. Retrying in '' @ show_int (retryAfterOr r (5 * 2 ^ retryCount))
              @ ''s... ('' @ show_nat (retryCount + 1) @ ''/'' @ show_nat MAX_RETRIES @ '')'')
         ''warning'',
       Sleep (retryAfterOr r (5 * 2 ^ retryCount) * 1000)]
      @ fst (callWithErrorHandling server isAdmin url (k + 1) (retryCount + 1)),
      snd (callWithErrorHandling server isAdmin url (k + 1) (retryCount + 1)))"
  using assms by (subst callWithErrorHandling.simps) (simp add: Let_def)

lemma catchLog_rate_limit: "catchLog ''Rate limit exceeded'' = []"
  by (simp add: catchLog_def)

lemma cweh_all429:
  assumes "\<And>k. \<exists>r. server k = Resp r \<and> resp_status r = 429"
    and "retryCount \<le> MAX_RETRIES"
  shows "snd (callWithErrorHandling server isAdmin url k retryCount) = Inl ''Rate limit exceeded''
     \<and> callCount url (fst (callWithErrorHandling server isAdmin url k retryCount))
         = MAX_RETRIES - retryCount + 1"
  using assms(2)
proof (induction "MAX_RETRIES - retryCount" arbitrary: k retryCount)
  case 0
  from assms(1) obtain r where r: "server k = Resp r" "resp_status r = 429" by blast
  from 0 have "MAX_RETRIES \<le> retryCount" by simp
  from cweh_429_last [of server k r retryCount isAdmin url] r this 0 show ?case
    by (simp add: catchLog_rate_limit callCount_def)
next
  case (Suc n)
  from assms(1) obtain r where r: "server k = Resp r" "resp_status r = 429" by blast
  from Suc have lt: "retryCount < MAX_RETRIES" by simp
  from Suc have "n = MAX_RETRIES - (retryCount + 1)" "retryCount + 1 \<le> MAX_RETRIES" by simp_all
  from Suc.hyps(1) [OF this] have IH:
    "snd (callWithErrorHandling server isAdmin url (k + 1) (retryCount + 1)) = Inl ''Rate limit exceeded''"
    "callCount url (fst (callWithErrorHandling server isAdmin url (k + 1) (retryCount + 1)))
       = MAX_RETRIES - (retryCount + 1) + 1"
    by simp_all
  show ?case
    using IH lt r cweh_429_retry [of server k r retryCount isAdmin url]
    by (simp add: callCount_def)
qed

text \<open>
  The same server against \<open>callWithErrorHandling\<close> with the retry counter: the call
  ends with the error "Rate limit exceeded" after four requests, the first one and
  \<open>MAX_RETRIES\<close> retries.
\<close>

lemma callWithErrorHandling_bounded:
  assumes "\<And>k. \<exists>r. server k = Resp r \<and> resp_status r = 429"
  shows "snd (callWithErrorHandling server isAdmin url k 0) = Inl ''Rate limit exceeded''
     \<and> callCount url (fst (callWithErrorHandling server isAdmin url k 0)) = 4"
  using cweh_all429 [of server 0 isAdmin url k] assms by (simp add: MAX_RETRIES_def)

text \<open>
  The fuel is no obstacle to a call that ends: against a server that answers 429 twice
  and then 200, three units are enough and the third response is returned.
\<close>

lemma legacy_returns_after_two_retries:
  "\<exists>evs r. callWithErrorHandling_legacy 3 twice429 onLine isAdmin url 0 = Some (evs, Inr r)
           \<and> resp_status r = 200 \<and> callCount url evs = 3"
  by (simp add: numeral_3_eq_3 twice429_def always429_def callCount_def Let_def)

section \<open>Properties of the action guards and the watchdog\<close>

text \<open>
  Claim C3. While \<open>operationInProgress\<close> is set, \<open>ActionGuard.guard\<close> returns
  \<open>null\<close> with the state as it was, and what it returns does not depend on the
  action, which therefore has not run; \<open>canProceed\<close> answers no; and
  \<open>executeBulkOperation\<close>, in either module, hands no call to
  \<open>Promise.allSettled\<close>, counts nothing and leaves the state, the flag included, as
  it was.
\<close>

theorem C3_blocked_while_in_progress:
  assumes "operationInProgress s"
  shows "guard actionName action options s =
       (if isFrozen s
        then ([ConsoleWarn (''[Guard] Action blocked (fatal state): '' @ actionName)], GuardNull, s)
        else ([Alert ''Please wait for the current operation to complete'' ''warning''], GuardNull, s))
     \<and> snd (canProceed actionName s) = False
     \<and> pacing (fst (executeBulkOperation cfg confirmed now endNow s)) = []
     \<and> successCount (fst (snd (executeBulkOperation cfg confirmed now endNow s))) = 0
     \<and> failureCount (fst (snd (executeBulkOperation cfg confirmed now endNow s))) = 0
     \<and> snd (snd (executeBulkOperation cfg confirmed now endNow s)) = s
     \<and> pacing (fst (executeBulkOperation_legacy cfg confirmed s)) = []
     \<and> snd (executeBulkOperation_legacy cfg confirmed s) = (Inr None, s)"
  using assms
  by (simp add: guard_def canProceed_def executeBulkOperation_def executeBulkOperation_legacy_def)

theorem C3_witness:
  "operationInProgress busyState
   \<and> guard ''removeUser'' someAction defaultOptions busyState =
       ([Alert ''Please wait for the current operation to complete'' ''warning''], GuardNull, busyState)
   \<and> snd (snd (executeBulkOperation failingConfig True 1000 2000 busyState)) = busyState"
proof -
  have h: "operationInProgress busyState" by (simp add: busyState_def)
  have f: "\<not> isFrozen busyState" by (simp add: busyState_def exampleState_def)
  show ?thesis
    using h f C3_blocked_while_in_progress [OF h, of "''removeUser''" someAction defaultOptions
        failingConfig True 1000 2000]
    by simp
qed

text \<open>
  Claim C8. An operation begins at \<open>t0\<close> with no other watchdog pending. The flag is
  then set. If the operation has not completed, a timer tick at or after
  \<open>t0 + 300000\<close> clears the flag and emits the warning, and a tick after that does
  nothing; a tick before \<open>t0 + 300000\<close> does nothing. If the operation completes,
  its \<open>finally\<close> block clears the flag and the timer, and no tick, however late,
  fires the watchdog.
\<close>

theorem C8_watchdog:
  assumes "pendingTimers s = []"
  shows "operationInProgress (snd (beginOperation t0 s))
     \<and> (late \<ge> t0 + 300000 \<longrightarrow>
          timerTick late (snd (beginOperation t0 s)) =
            ([ConsoleError (''[API.executeBulkOperation] WATCHDOG: Operation timeout detected! ''
                            @ ''Force clearing operationInProgress flag''),
              Alert ''Operation timed out and was reset. Please try again.'' ''warning''],
             (snd (beginOperation t0 s))\<lparr>pendingTimers := [], operationInProgress := False\<rparr>)
          \<and> timerTick later (snd (timerTick late (snd (beginOperation t0 s)))) =
              ([], snd (timerTick late (snd (beginOperation t0 s)))))
     \<and> (early < t0 + 300000 \<longrightarrow>
          timerTick early (snd (beginOperation t0 s)) = ([], snd (beginOperation t0 s)))
     \<and> \<not> operationInProgress
           (finishOperation (fst (beginOperation t0 s)) (snd (beginOperation t0 s)))
     \<and> timerTick now (finishOperation (fst (beginOperation t0 s)) (snd (beginOperation t0 s))) =
         ([], finishOperation (fst (beginOperation t0 s)) (snd (beginOperation t0 s)))"
  using assms
  by (simp add: beginOperation_def setWatchdog_def finishOperation_def timerTick_def
      clearTimeout_def watchdogCallback_def WATCHDOG_DELAY_def)

theorem C8_witness:
  "pendingTimers emptyState = [] \<and> (301000::nat) \<ge> 1000 + 300000 \<and> (300999::nat) < 1000 + 300000
   \<and> timerTick 301000 (snd (beginOperation 1000 emptyState)) =
       ([ConsoleError (''[API.executeBulkOperation] WATCHDOG: Operation timeout detected! ''
                       @ ''Force clearing operationInProgress flag''),
         Alert ''Operation timed out and was reset. Please try again.'' ''warning''],
        (snd (beginOperation 1000 emptyState))\<lparr>pendingTimers := [], operationInProgress := False\<rparr>)
   \<and> timerTick 400000 (snd (timerTick 301000 (snd (beginOperation 1000 emptyState)))) =
       ([], snd (timerTick 301000 (snd (beginOperation 1000 emptyState))))
   \<and> timerTick 300999 (snd (beginOperation 1000 emptyState)) =
       ([], snd (beginOperation 1000 emptyState))"
proof -
  have h: "pendingTimers emptyState = []" by (simp add: emptyState_def)
  have l: "(301000::nat) \<ge> 1000 + 300000" by simp
  have e: "(300999::nat) < 1000 + 300000" by simp
  show ?thesis
    using h l e C8_watchdog [OF h, of 1000 301000 400000 300999 0]
    by blast
qed

section \<open>Properties of the bulk operation engine\<close>

lemma pacing_append: "pacing (xs @ ys) = pacing xs @ pacing ys"
  by (induction xs rule: pacing.induct) simp_all

lemma settleBatch_pacing: "pacing (fst (settleBatch cfg batch acc)) = []"
  by (induction cfg batch acc rule: settleBatch.induct)
     (simp_all add: split_beta pacing_append split: settled.splits option.splits)

lemma settleBatch_tally:
  "tally (snd (settleBatch cfg batch acc)) = tally acc + length batch"
  by (induction cfg batch acc rule: settleBatch.induct)
     (simp_all add: split_beta tally_def split: settled.splits option.splits)

lemma settleBatch_legacy_pacing: "pacing (fst (settleBatch_legacy cfg batch acc)) = []"
  by (induction cfg batch acc rule: settleBatch_legacy.induct)
     (simp_all add: split_beta pacing_append split: settled.splits option.splits)

lemma settleBatch_legacy_tally:
  assumes "\<And>p. makeCall cfg p \<noteq> Fulfilled None"
  shows "\<exists>acc'. snd (settleBatch_legacy cfg batch acc) = Some acc'
           \<and> tally acc' = tally acc + length batch"
  using assms
  by (induction cfg batch acc rule: settleBatch_legacy.induct)
     (auto simp: split_beta tally_def split: settled.splits option.splits)


lemma runBatches_done: "length payloads \<le> i \<Longrightarrow> runBatches cfg payloads i acc = ([], acc)"
  by (subst runBatches.simps) simp

lemma runBatches_step:
  "i < length payloads \<Longrightarrow>
   runBatches cfg payloads i acc =
     ((if length payloads > BATCH_SIZE
       then [Ev (Alert (''Processing batch '' @ show_nat (i div BATCH_SIZE + 1) @ ''/''
                        @ show_nat ((length payloads + BATCH_SIZE - 1) div BATCH_SIZE) @ ''...'')
                   ''info'')]
       else [])
      @ [MakeCalls (map snd (take BATCH_SIZE (drop i payloads)))]
      @ fst (settleBatch cfg (take BATCH_SIZE (drop i payloads)) acc)
      @ (if i + BATCH_SIZE < length payloads then [Ev (Sleep (int RATE_LIMIT_DELAY))] else [])
      @ fst (runBatches cfg payloads (i + BATCH_SIZE)
               (snd (settleBatch cfg (take BATCH_SIZE (drop i payloads)) acc))),
      snd (runBatches cfg payloads (i + BATCH_SIZE)
             (snd (settleBatch cfg (take BATCH_SIZE (drop i payloads)) acc))))"
  by (subst runBatches.simps) (simp add: Let_def)

lemma runBatches_tally:
  "tally (snd (runBatches cfg payloads i acc)) = tally acc + (length payloads - i)"
proof (induction cfg payloads i acc rule: runBatches.induct)
  case (1 cfg payloads i acc)
  show ?case
  proof (cases "i < length payloads")
    case False
    then show ?thesis by (simp add: runBatches_done)
  next
    case True
    have "tally (snd (runBatches cfg payloads (i + BATCH_SIZE)
               (snd (settleBatch cfg (take BATCH_SIZE (drop i payloads)) acc))))
          = tally (snd (settleBatch cfg (take BATCH_SIZE (drop i payloads)) acc))
            + (length payloads - (i + BATCH_SIZE))"
      using True by (intro "1.IH") simp_all
    then show ?thesis
      using True by (simp add: runBatches_step settleBatch_tally min_def)
  qed
qed

lemma runBatches_pacing_37:
  assumes "length payloads = 37"
  shows "pacing (fst (runBatches cfg payloads 0 acc)) =
           [Batch 15, Pause 100, Batch 15, Pause 100, Batch 7]"
proof -
  have b3: "pacing (fst (runBatches cfg payloads 30 a)) = [Batch 7]" for a
    using assms
    by (simp add: runBatches_step runBatches_done pacing_append settleBatch_pacing
        BATCH_SIZE_def RATE_LIMIT_DELAY_def)
  have b2: "pacing (fst (runBatches cfg payloads 15 a)) = [Batch 15, Pause 100, Batch 7]" for a
    using assms b3
    by (simp add: runBatches_step pacing_append settleBatch_pacing
        BATCH_SIZE_def RATE_LIMIT_DELAY_def)
  show ?thesis
    using assms b2
    by (simp add: runBatches_step pacing_append settleBatch_pacing
        BATCH_SIZE_def RATE_LIMIT_DELAY_def)
qed


lemma runBatches_legacy_done:
  "length payloads \<le> i \<Longrightarrow> runBatches_legacy cfg payloads i acc = ([], Some acc)"
  by (subst runBatches_legacy.simps) simp

lemma runBatches_legacy_step:
  "i < length payloads \<Longrightarrow>
   snd (settleBatch_legacy cfg (take BATCH_SIZE (drop i payloads)) acc) = Some acc1 \<Longrightarrow>
   runBatches_legacy cfg payloads i acc =
     ([MakeCalls (map snd (take BATCH_SIZE (drop i payloads)))]
      @ fst (settleBatch_legacy cfg (take BATCH_SIZE (drop i payloads)) acc)
      @ (if i + BATCH_SIZE < length payloads then [Ev (Sleep (int RATE_LIMIT_DELAY))] else [])
      @ fst (runBatches_legacy cfg payloads (i + BATCH_SIZE) acc1),
      snd (runBatches_legacy cfg payloads (i + BATCH_SIZE) acc1))"
  by (subst runBatches_legacy.simps) (simp add: Let_def)

lemma runBatches_legacy_tally:
  assumes "\<And>p. makeCall cfg p \<noteq> Fulfilled None"
  shows "\<exists>acc'. snd (runBatches_legacy cfg payloads i acc) = Some acc'
           \<and> tally acc' = tally acc + (length payloads - i)"
  using assms
proof (induction cfg payloads i acc rule: runBatches_legacy.induct)
  case (1 cfg payloads i acc)
  show ?case
  proof (cases "i < length payloads")
    case False
    then show ?thesis by (simp add: runBatches_legacy_done)
  next
    case True
    from settleBatch_legacy_tally [of cfg "take BATCH_SIZE (drop i payloads)" acc] "1.prems"
    obtain acc1 where acc1:
      "snd (settleBatch_legacy cfg (take BATCH_SIZE (drop i payloads)) acc) = Some acc1"
      "tally acc1 = tally acc + length (take BATCH_SIZE (drop i payloads))"
      by blast
    have "\<exists>acc'. snd (runBatches_legacy cfg payloads (i + BATCH_SIZE) acc1) = Some acc'
            \<and> tally acc' = tally acc1 + (length payloads - (i + BATCH_SIZE))"
      using True acc1(1) "1.prems" by (intro "1.IH") simp_all
    then show ?thesis
      using True acc1 by (auto simp: runBatches_legacy_step [OF True acc1(1)] min_def)
  qed
qed

lemma runBatches_legacy_pacing_37:
  assumes "length payloads = 37" and nonnull: "\<And>p. makeCall cfg p \<noteq> Fulfilled None"
  shows "pacing (fst (runBatches_legacy cfg payloads 0 acc)) =
           [Batch 15, Pause 100, Batch 15, Pause 100, Batch 7]"
proof -
  have settle: "\<exists>acc1. snd (settleBatch_legacy cfg (take BATCH_SIZE (drop i payloads)) a) = Some acc1"
    for i a
    using settleBatch_legacy_tally [of cfg "take BATCH_SIZE (drop i payloads)" a] nonnull by blast
  have b3: "pacing (fst (runBatches_legacy cfg payloads 30 a)) = [Batch 7]" for a
  proof -
    from settle [of 30 a] obtain acc1 where
      "snd (settleBatch_legacy cfg (take BATCH_SIZE (drop 30 payloads)) a) = Some acc1" ..
    then show ?thesis
      using assms(1)
      by (simp add: runBatches_legacy_step [of 30 payloads cfg a acc1] runBatches_legacy_done
          pacing_append settleBatch_legacy_pacing BATCH_SIZE_def RATE_LIMIT_DELAY_def)
  qed
  have b2: "pacing (fst (runBatches_legacy cfg payloads 15 a)) = [Batch 15, Pause 100, Batch 7]" for a
  proof -
    from settle [of 15 a] obtain acc1 where
      "snd (settleBatch_legacy cfg (take BATCH_SIZE (drop 15 payloads)) a) = Some acc1" ..
    then show ?thesis
      using assms(1) b3
      by (simp add: runBatches_legacy_step [of 15 payloads cfg a acc1]
          pacing_append settleBatch_legacy_pacing BATCH_SIZE_def RATE_LIMIT_DELAY_def)
  qed
  from settle [of 0 acc] obtain acc1 where
    "snd (settleBatch_legacy cfg (take BATCH_SIZE (drop 0 payloads)) acc) = Some acc1" ..
  then show ?thesis
    using assms(1) b2
    by (simp add: runBatches_legacy_step [of 0 payloads cfg acc acc1]
        pacing_append settleBatch_legacy_pacing BATCH_SIZE_def RATE_LIMIT_DELAY_def)
qed

lemma buildPayloads_length:
  assumes "\<forall>item \<in> set (items cfg). buildPayload cfg item \<noteq> None"
  shows "length (buildPayloads cfg) = length (items cfg)"
proof -
  have "(\<forall>item \<in> set xs. buildPayload cfg item \<noteq> None) \<Longrightarrow>
        length (concat (map (\<lambda>item. case buildPayload cfg item of
                                       None \<Rightarrow> []
                                     | Some payload \<Rightarrow> [(item, payload)]) xs)) = length xs" for xs
    by (induction xs) auto
  with assms show ?thesis by (simp add: buildPayloads_def)
qed

lemma pacing_Ev_other:
  "pacing [Ev (Alert m k)] = []" "pacing [Ev (ConsoleLog m)] = []" "pacing [Ev (ConsoleError m)] = []"
  "pacing [Confirm m] = []" "pacing [UpdateCache a b] = []" "pacing [OnComplete a b] = []"
  by simp_all

lemma finalAlert_pacing: "pacing (Ev (finalAlert cfg sc fc kind) # evs) = pacing evs"
  by (simp add: finalAlert_def)

text \<open>
  Claim C2. With 37 items, each with a truthy payload, and the preconditions met
  (permission, confirmation, no operation in progress), the engine hands three batches
  of 15, 15 and 7 calls to \<open>Promise.allSettled\<close>, sleeps
  \<open>RATE_LIMIT_DELAY\<close> = 100 ms after the first and after the second batch and not
  after the third, and returns counts with \<open>successCount + failureCount = 37\<close>,
  however the calls settle. The engine of js/api.js does the same whenever every call
  that fulfils carries a response.
\<close>

theorem C2_bulk_batches:
  assumes "length (items cfg) = 37"
    and "\<forall>item \<in> set (items cfg). buildPayload cfg item \<noteq> None"
    and "permissionCheck cfg \<noteq> Some False"
    and "truthy (confirmMessage cfg) \<longrightarrow> confirmed"
    and "\<not> operationInProgress s"
  shows "pacing (fst (executeBulkOperation cfg confirmed now endNow s)) =
           [Batch 15, Pause 100, Batch 15, Pause 100, Batch 7]
     \<and> successCount (fst (snd (executeBulkOperation cfg confirmed now endNow s)))
         + failureCount (fst (snd (executeBulkOperation cfg confirmed now endNow s))) = 37
     \<and> ((\<forall>p. makeCall cfg p \<noteq> Fulfilled None) \<longrightarrow>
          pacing (fst (executeBulkOperation_legacy cfg confirmed s)) =
            [Batch 15, Pause 100, Batch 15, Pause 100, Batch 7]
          \<and> (\<exists>r. fst (snd (executeBulkOperation_legacy cfg confirmed s)) = Inr (Some r)
                \<and> successCount r + failureCount r = 37))"
proof -
  let ?ps = "buildPayloads cfg"
  have len: "length ?ps = 37"
    using assms(1,2) by (simp add: buildPayloads_length)
  have gates: "permissionCheck cfg \<noteq> Some False" "length (items cfg) \<noteq> 0"
    "\<not> (truthy (confirmMessage cfg) \<and> \<not> confirmed)" "\<not> operationInProgress s"
    using assms by auto
  have p: "pacing (fst (runBatches cfg ?ps 0 (0, 0, []))) =
             [Batch 15, Pause 100, Batch 15, Pause 100, Batch 7]"
    using len by (rule runBatches_pacing_37)
  have c: "tally (snd (runBatches cfg ?ps 0 (0, 0, []))) = 37"
    using len runBatches_tally [of cfg ?ps 0 "(0, 0, [])"] by (simp add: tally_def)
  have new1: "pacing (fst (executeBulkOperation cfg confirmed now endNow s)) =
           [Batch 15, Pause 100, Batch 15, Pause 100, Batch 7]"
    using gates p
    by (simp add: executeBulkOperation_def split_beta Let_def pacing_append finalAlert_pacing)
  have new2: "successCount (fst (snd (executeBulkOperation cfg confirmed now endNow s)))
         + failureCount (fst (snd (executeBulkOperation cfg confirmed now endNow s))) = 37"
    using gates c
    by (simp add: executeBulkOperation_def split_beta Let_def tally_def)
  have old: "pacing (fst (executeBulkOperation_legacy cfg confirmed s)) =
            [Batch 15, Pause 100, Batch 15, Pause 100, Batch 7]
          \<and> (\<exists>r. fst (snd (executeBulkOperation_legacy cfg confirmed s)) = Inr (Some r)
                \<and> successCount r + failureCount r = 37)"
    if nonnull: "\<forall>p. makeCall cfg p \<noteq> Fulfilled None"
  proof -
    from nonnull have nn: "\<And>p. makeCall cfg p \<noteq> Fulfilled None" by blast
    have lp: "pacing (fst (runBatches_legacy cfg ?ps 0 (0, 0, []))) =
             [Batch 15, Pause 100, Batch 15, Pause 100, Batch 7]"
      using len nn by (rule runBatches_legacy_pacing_37)
    from runBatches_legacy_tally [of cfg ?ps 0 "(0, 0, [])"] nn len
    obtain acc' where acc': "snd (runBatches_legacy cfg ?ps 0 (0, 0, [])) = Some acc'"
      "tally acc' = 37"
      by (auto simp: tally_def)
    obtain sc fc errs where triple: "acc' = (sc, fc, errs)" by (cases acc') auto
    show ?thesis
      using gates lp acc' triple
      by (simp add: executeBulkOperation_legacy_def Let_def pacing_append finalAlert_pacing tally_def)
  qed
  from new1 new2 old show ?thesis by blast
qed

theorem C2_witness:
  "length (items failingConfig) = 37
   \<and> permissionCheck failingConfig = Some True
   \<and> \<not> operationInProgress emptyState
   \<and> pacing (fst (executeBulkOperation failingConfig True 1000 2000 emptyState)) =
           [Batch 15, Pause 100, Batch 15, Pause 100, Batch 7]
   \<and> successCount (fst (snd (executeBulkOperation failingConfig True 1000 2000 emptyState)))
         + failureCount (fst (snd (executeBulkOperation failingConfig True 1000 2000 emptyState))) = 37
   \<and> pacing (fst (executeBulkOperation_legacy failingConfig True emptyState)) =
            [Batch 15, Pause 100, Batch 15, Pause 100, Batch 7]"
proof -
  have a: "length (items failingConfig) = 37" by (simp add: failingConfig_def)
  have b: "\<forall>item \<in> set (items failingConfig). buildPayload failingConfig item \<noteq> None"
    by (simp add: failingConfig_def)
  have c: "permissionCheck failingConfig \<noteq> Some False" by (simp add: failingConfig_def)
  have d: "truthy (confirmMessage failingConfig) \<longrightarrow> True" by simp
  have e: "\<not> operationInProgress emptyState" by (simp add: emptyState_def)
  have f: "\<forall>p. makeCall failingConfig p \<noteq> Fulfilled None" by (simp add: failingConfig_def)
  show ?thesis
    using a e f C2_bulk_batches [OF a b c d e, of 1000 2000]
    by (simp add: failingConfig_def)
qed

end
